theory Spec2Isabelle
  imports Main "HOL-Library.Word" "HOL-Library.AList" "HOL-Library.Sublist"
begin

unbundle bit_operations_syntax

chapter \<open>Definitions\<close>

section \<open>The disk store underneath the middleware\<close>

text \<open>
  The middleware of \<^verbatim>\<open>cache.go\<close> keeps its entries in a \<^verbatim>\<open>fileCache\<close>
  (\<^verbatim>\<open>newFileCache\<close>, \<^verbatim>\<open>Get\<close>, \<^verbatim>\<open>Set\<close>). The file that implements it,
  \<^verbatim>\<open>file.go\<close>, is named by the repository's \<^verbatim>\<open>CLAUDE.md\<close> but is not among the
  sources at hand, so this section follows the specification: the record codec of its
  section 4.2, the key sharder of 4.1, the store of 4.3 and the vacuum run of 4.4.
  Locks and the timer of the vacuum loop are not part of the model: every operation is one
  atomic step on the file tree.
\<close>

type_synonym byte = "8 word"
type_synonym uint32 = "32 word"
type_synonym uint64 = "64 word"

text \<open>The error taxonomy of section 7 of the specification.\<close>

datatype error = NotFound | CorruptRecord | IOError | InvalidArgument

subsection \<open>Record codec\<close>

text \<open>
  Modelled from the spec: the codec of \<^verbatim>\<open>file.go\<close> is missing. Section 6 fixes the file
  bytes: 8 raw bytes of little-endian unsigned expiry timestamp, then the payload.
  \<open>PutUint64\<close> writes that prefix in the byte order of Go's \<^verbatim>\<open>encoding/binary\<close>
  \<^verbatim>\<open>LittleEndian\<close>: byte \<open>i\<close> holds bits \<open>8 * i\<close> to \<open>8 * i + 7\<close>.
\<close>

definition PutUint64 :: "uint64 \<Rightarrow> byte list" where
  "PutUint64 v = map (\<lambda>i. ucast (drop_bit (8 * i) v)) [0..<8]"

text \<open>
  Modelled from the spec: reading the little-endian prefix back (missing with
  \<^verbatim>\<open>file.go\<close>). \<open>leValue\<close> is the value of a byte string read least significant
  byte first; \<open>Uint64\<close> reads the first 8 bytes.
\<close>

fun leValue :: "byte list \<Rightarrow> uint64" where
  "leValue [] = 0"
| "leValue (x # xs) = ucast x OR push_bit 8 (leValue xs)"

definition Uint64 :: "byte list \<Rightarrow> uint64" where
  "Uint64 b = leValue (take 8 b)"

text \<open>
  Modelled from the spec: \<open>encode(expiresAt, payload) -> bytes\<close> of section 4.2 (missing
  with \<^verbatim>\<open>file.go\<close>) is the 8-byte timestamp followed immediately by the raw payload, with
  no length prefix.
\<close>

definition encode :: "uint64 \<Rightarrow> byte list \<Rightarrow> byte list" where
  "encode expiresAt payload = PutUint64 expiresAt @ payload"

text \<open>
  Modelled from the spec: \<open>decode(bytes) -> (expiresAt, payload, err)\<close> of section 4.2
  (missing with \<^verbatim>\<open>file.go\<close>) fails with \<open>CorruptRecord\<close> if fewer than 8 bytes are
  present; the payload is everything after byte 8.
\<close>

definition decode :: "byte list \<Rightarrow> error + (uint64 \<times> byte list)" where
  "decode b = (if length b < 8 then Inl CorruptRecord else Inr (Uint64 b, drop 8 b))"

subsection \<open>Key sharder\<close>

text \<open>
  Modelled from the spec: the rendering of one hash byte as a path segment (missing with
  \<^verbatim>\<open>file.go\<close>). Section 3 splits the 32-bit checksum "into hex/byte groups": each of
  \<open>h1..h4\<close> is one byte of the checksum as two lower-case hexadecimal digits.
\<close>

definition hexdigit :: "nat \<Rightarrow> char" where
  "hexdigit n = ''0123456789abcdef'' ! n"

definition hexByte :: "byte \<Rightarrow> string" where
  "hexByte b = [hexdigit (unat b div 16), hexdigit (unat b mod 16)]"

text \<open>
  Modelled from the spec: the two functions the sharder of \<^verbatim>\<open>file.go\<close> is built from
  are missing, and the specification leaves both open: "a fixed-size hash of the key
  (e.g., a 32-bit checksum ...)" and a sanitizer that escapes or replaces the characters
  unsafe for file names. They are the two fields of a \<open>KeySharder\<close>.
\<close>

record KeySharder =
  checksum :: "string \<Rightarrow> uint32"
  sanitize :: "string \<Rightarrow> string"

text \<open>
  Modelled from the spec: \<open>shardPath(root, key) -> path\<close> of section 4.1 (\<^verbatim>\<open>keyPath\<close> of
  the missing \<^verbatim>\<open>file.go\<close>) is \<open>root / h1 / h2 / h3 / h4 / sanitized-key\<close>, where
  \<open>h1..h4\<close> are successive slices of the checksum of the raw key, here from the most
  significant byte to the least. It is total: no key is rejected.
\<close>

definition shardPath :: "KeySharder \<Rightarrow> string \<Rightarrow> string \<Rightarrow> string" where
  "shardPath ks root key =
     (let h = checksum ks key
      in root @ ''/'' @ hexByte (ucast (drop_bit 24 h))
              @ ''/'' @ hexByte (ucast (drop_bit 16 h))
              @ ''/'' @ hexByte (ucast (drop_bit 8 h))
              @ ''/'' @ hexByte (ucast h)
              @ ''/'' @ sanitize ks key)"

subsection \<open>Store\<close>

text \<open>
  Modelled from the spec: the store handle and the file tree it works on (the
  \<^verbatim>\<open>fileCache\<close> of the missing \<^verbatim>\<open>file.go\<close>). The tree is a list of files, each a
  path with its bytes; directories are implicit in the paths. \<open>denied\<close> lists the paths
  on which the file system refuses to write or to remove (permission denied, disk full,
  path too long: the \<open>IOError\<close> class of section 7).
\<close>

record Store =
  rootPath :: string
  sharder :: KeySharder
  files :: "(string \<times> byte list) list"
  denied :: "string list"

definition keyPath :: "Store \<Rightarrow> string \<Rightarrow> string" where
  "keyPath s key = shardPath (sharder s) (rootPath s) key"

text \<open>
  Modelled from the spec: \<open>Get(key) -> (payload, found)\<close> of section 4.3 (missing with
  \<^verbatim>\<open>file.go\<close>). File absent, codec decode failure and \<open>expiresAt <= now\<close> all report
  not found; on success the payload bytes are returned unmodified. The clock reading
  \<open>now\<close> is in the clock domain of the stored expiry, whole seconds as an unsigned 64-bit
  value. The store is returned with the result, so that the absence of a side effect is a
  property to prove and not a matter of the type.
\<close>

definition storeGet :: "Store \<Rightarrow> uint64 \<Rightarrow> string \<Rightarrow> (byte list \<times> bool) \<times> Store" where
  "storeGet s now key =
     (case map_of (files s) (keyPath s key) of
        None \<Rightarrow> (([], False), s)
      | Some b \<Rightarrow>
          (case decode b of
             Inl _ \<Rightarrow> (([], False), s)
           | Inr (expiresAt, payload) \<Rightarrow>
               if expiresAt \<le> now then (([], False), s) else ((payload, True), s)))"


subsection \<open>Vacuum run\<close>

text \<open>
  Modelled from the spec: one run of the vacuum loop of section 4.4 (missing with
  \<^verbatim>\<open>file.go\<close>). It walks every file under the cache root, decodes the file's expiry
  prefix and deletes the file where \<open>expiresAt <= now\<close>. A decode failure makes the file
  a candidate for deletion and is logged; a failed delete is logged; in both cases the
  walk goes on with the next file.
\<close>

fun removeFile :: "string \<Rightarrow> Store \<times> string list \<Rightarrow> Store \<times> string list" where
  "removeFile p (s, lg) =
     (if p \<in> set (denied s) then (s, lg @ [''vacuum: cannot remove '' @ p])
      else (s\<lparr>files := AList.delete p (files s)\<rparr>, lg))"

fun vacuumFile :: "uint64 \<Rightarrow> Store \<times> string list \<Rightarrow> string \<Rightarrow> Store \<times> string list" where
  "vacuumFile now (s, lg) p =
     (case map_of (files s) p of
        None \<Rightarrow> (s, lg)
      | Some b \<Rightarrow>
          (case decode b of
             Inl _ \<Rightarrow> removeFile p (s, lg @ [''vacuum: corrupt record '' @ p])
           | Inr (expiresAt, _) \<Rightarrow>
               if expiresAt \<le> now then removeFile p (s, lg) else (s, lg)))"

definition walk :: "Store \<Rightarrow> string list" where
  "walk s = filter (prefix (rootPath s @ ''/'')) (map fst (files s))"

definition vacuumRun :: "Store \<Rightarrow> uint64 \<Rightarrow> Store \<times> string list" where
  "vacuumRun s now = foldl (vacuumFile now) (s, []) (walk s)"

subsection \<open>A store for the examples\<close>

text \<open>
  The checksum of the examples. \<^verbatim>\<open>CLAUDE.md\<close> says that \<^verbatim>\<open>keyPath\<close> uses a CRC32
  hash; \<open>ChecksumIEEE\<close> is the CRC-32 of Go's \<^verbatim>\<open>hash/crc32\<close> with the IEEE polynomial,
  computed bit by bit (reflected polynomial \<open>0xEDB88320\<close>, initial value and final
  complement all ones). \<open>byteOfChar\<close> is the byte of a character of a Go string.
\<close>

definition byteOfChar :: "char \<Rightarrow> byte" where
  "byteOfChar c = word_of_nat (of_char c)"

definition crcBit :: "uint32 \<Rightarrow> uint32" where
  "crcBit c = (if bit c 0 then drop_bit 1 c XOR 0xEDB88320 else drop_bit 1 c)"

definition crcByte :: "uint32 \<Rightarrow> byte \<Rightarrow> uint32" where
  "crcByte c b =
     crcBit (crcBit (crcBit (crcBit (crcBit (crcBit (crcBit (crcBit (c XOR ucast b))))))))"

definition ChecksumIEEE :: "string \<Rightarrow> uint32" where
  "ChecksumIEEE s = NOT (foldl (\<lambda>c ch. crcByte c (byteOfChar ch)) (NOT 0) s)"

text \<open>
  The sanitizer of the examples. Neither the specification nor the sources at hand say
  how \<^verbatim>\<open>file.go\<close> escapes a key, so this one is a choice made for the examples only: a
  path separator, a control character or the character \<open>%\<close> becomes \<open>%\<close> followed by
  the two hexadecimal digits of the byte, and every other character is kept. No theorem
  about the store depends on it: they hold for every sharder.
\<close>

definition unsafeChar :: "char \<Rightarrow> bool" where
  "unsafeChar c =
     (of_char c < (32 :: nat) \<or> of_char c = (127 :: nat)
      \<or> c = CHR ''/'' \<or> c = CHR 0x5C \<or> c = CHR ''%'')"

definition escapeChar :: "char \<Rightarrow> string" where
  "escapeChar c = (if unsafeChar c then CHR ''%'' # hexByte (byteOfChar c) else [c])"

definition escapeKey :: "string \<Rightarrow> string" where
  "escapeKey k = concat (map escapeChar k)"

text \<open>
  The store of the examples: this checksum and this sanitizer, on a cache root
  \<^verbatim>\<open>/cache\<close> that is empty at first.
\<close>

definition crcSharder :: KeySharder where
  "crcSharder = \<lparr>checksum = ChecksumIEEE, sanitize = escapeKey\<rparr>"

definition emptyStore :: Store where
  "emptyStore = \<lparr>rootPath = ''/cache'', sharder = crcSharder, files = [], denied = []\<rparr>"

section \<open>The middleware of cache.go\<close>

subsection \<open>Go's integers, strings and headers\<close>

text \<open>
  Go's \<^verbatim>\<open>int\<close> is taken at its width on 64-bit targets, and \<^verbatim>\<open>time.Duration\<close> is an
  \<^verbatim>\<open>int64\<close> count of nanoseconds. Both are 64-bit words read as two's complement
  (\<open>sint\<close>); arithmetic wraps around, as Go's does.
\<close>

type_synonym go_int = "64 word"
type_synonym Duration = "64 word"

definition Second :: Duration where
  "Second = 1000000000"

text \<open>
  \<^verbatim>\<open>strings.HasPrefix\<close>, and the case of the ASCII letters. Go's
  \<^verbatim>\<open>strings.ToLower\<close> maps every Unicode letter, so the middleware below takes it as a
  parameter (\<open>stringsToLower\<close>); \<open>ToLower\<close> is what it does on an ASCII string, and
  stands for it in the examples, whose paths and prefixes are ASCII.
\<close>

definition isUpper :: "char \<Rightarrow> bool" where
  "isUpper c = (65 \<le> (of_char c :: nat) \<and> (of_char c :: nat) \<le> 90)"

definition isLower :: "char \<Rightarrow> bool" where
  "isLower c = (97 \<le> (of_char c :: nat) \<and> (of_char c :: nat) \<le> 122)"

definition isDigit :: "char \<Rightarrow> bool" where
  "isDigit c = (48 \<le> (of_char c :: nat) \<and> (of_char c :: nat) \<le> 57)"

definition toUpper :: "char \<Rightarrow> char" where
  "toUpper c = (if isLower c then char_of (of_char c - (32 :: nat)) else c)"

definition toLower :: "char \<Rightarrow> char" where
  "toLower c = (if isUpper c then char_of (of_char c + (32 :: nat)) else c)"

definition ToLower :: "string \<Rightarrow> string" where
  "ToLower s = map toLower s"

definition HasPrefix :: "string \<Rightarrow> string \<Rightarrow> bool" where
  "HasPrefix s p = prefix p s"

text \<open>
  \<^verbatim>\<open>http.CanonicalHeaderKey\<close> as Go documents it: the first letter and any letter
  following a hyphen are made upper case, the rest lower case; a key that contains a
  space or another byte that is not valid in a header field name is returned unchanged.
  The valid bytes are the token characters of RFC 7230.
\<close>

definition validHeaderFieldByte :: "char \<Rightarrow> bool" where
  "validHeaderFieldByte c =
     (isUpper c \<or> isLower c \<or> isDigit c \<or> c \<in> set ''!#$%&*+-.^_|~''
      \<or> c = CHR 0x27 \<or> c = CHR 0x60)"

fun canonicalBytes :: "bool \<Rightarrow> string \<Rightarrow> string" where
  "canonicalBytes upper [] = []"
| "canonicalBytes upper (c # cs) =
     (let c' = (if upper then toUpper c else toLower c)
      in c' # canonicalBytes (c' = CHR ''-'') cs)"

definition CanonicalHeaderKey :: "string \<Rightarrow> string" where
  "CanonicalHeaderKey s =
     (if list_all validHeaderFieldByte s then canonicalBytes True s else s)"

text \<open>
  \<^verbatim>\<open>http.Header\<close> is a \<^verbatim>\<open>map[string][]string\<close>: here a list of keys with their values,
  looked up with \<open>map_of\<close>. \<^verbatim>\<open>Get\<close>, \<^verbatim>\<open>Set\<close>, \<^verbatim>\<open>Add\<close> and \<^verbatim>\<open>Del\<close> canonicalize
  the key they are given; \<^verbatim>\<open>Get\<close> returns the first value of the key, or the empty
  string.
\<close>

type_synonym header = "(string \<times> string list) list"

definition Header_Get :: "header \<Rightarrow> string \<Rightarrow> string" where
  "Header_Get h key =
     (case map_of h (CanonicalHeaderKey key) of
        None \<Rightarrow> ''''
      | Some [] \<Rightarrow> ''''
      | Some (v # _) \<Rightarrow> v)"

definition Header_Set :: "header \<Rightarrow> string \<Rightarrow> string \<Rightarrow> header" where
  "Header_Set h key val = AList.update (CanonicalHeaderKey key) [val] h"

definition Header_Add :: "header \<Rightarrow> string \<Rightarrow> string \<Rightarrow> header" where
  "Header_Add h key val =
     (let k = CanonicalHeaderKey key
      in AList.update k ((case map_of h k of None \<Rightarrow> [] | Some vs \<Rightarrow> vs) @ [val]) h)"

definition Header_Del :: "header \<Rightarrow> string \<Rightarrow> header" where
  "Header_Del h key = AList.delete (CanonicalHeaderKey key) h"

subsection \<open>Configuration\<close>

record Config =
  Path :: string
  MaxExpiry :: go_int
  Cleanup :: go_int
  AddStatusHeader :: bool
  Force :: bool
  CacheHeaders :: "string list"
  CachePathPrefixes :: "string list"

definition CreateConfig :: Config where
  "CreateConfig =
     \<lparr>Path = '''', MaxExpiry = 300, Cleanup = 300, AddStatusHeader = True, Force = False,
      CacheHeaders = [], CachePathPrefixes = []\<rparr>"

definition cacheHeader :: string where "cacheHeader = ''Cache-Status''"
definition cacheHitStatus :: string where "cacheHitStatus = ''hit''"
definition cacheMissStatus :: string where "cacheMissStatus = ''miss''"
definition cacheErrorStatus :: string where "cacheErrorStatus = ''error''"

subsection \<open>Requests, response writers and handlers\<close>

text \<open>The fields of \<^verbatim>\<open>http.Request\<close> that the middleware or a claim mentions.\<close>

record Request =
  Method :: string
  Host :: string
  URL_Path :: string
  URL_RawQuery :: string
  Header :: header

text \<open>
  An \<^verbatim>\<open>http.ResponseWriter\<close> is an interface. What it delivers to the client is
  decided by its header map and by the calls of \<^verbatim>\<open>WriteHeader\<close> and \<^verbatim>\<open>Write\<close> it
  receives, in their order; the model keeps exactly these.
\<close>

datatype call = WriteHeaderCall go_int | WriteCall "byte list"

record ResponseWriter =
  wHeader :: header
  wCalls :: "call list"

definition ResponseWriter_WriteHeader :: "ResponseWriter \<Rightarrow> go_int \<Rightarrow> ResponseWriter" where
  "ResponseWriter_WriteHeader w s = w\<lparr>wCalls := wCalls w @ [WriteHeaderCall s]\<rparr>"

definition ResponseWriter_Write :: "ResponseWriter \<Rightarrow> byte list \<Rightarrow> ResponseWriter" where
  "ResponseWriter_Write w p = w\<lparr>wCalls := wCalls w @ [WriteCall p]\<rparr>"

text \<open>
  The \<^verbatim>\<open>responseWriter\<close> of \<^verbatim>\<open>cache.go\<close> embeds the writer it wraps and captures the
  status and the body on their way through; \<^verbatim>\<open>Header()\<close> is the embedded writer's.
\<close>

record responseWriter =
  embedded :: ResponseWriter
  status :: go_int
  body :: "byte list"

definition Write :: "responseWriter \<Rightarrow> byte list \<Rightarrow> responseWriter" where
  "Write rw p = rw\<lparr>body := body rw @ p, embedded := ResponseWriter_Write (embedded rw) p\<rparr>"

definition WriteHeader :: "responseWriter \<Rightarrow> go_int \<Rightarrow> responseWriter" where
  "WriteHeader rw s = rw\<lparr>status := s, embedded := ResponseWriter_WriteHeader (embedded rw) s\<rparr>"

text \<open>
  An \<^verbatim>\<open>http.Handler\<close> acts on the writer it is given through the writer's interface
  only. It is modelled by the list of actions it takes, which may depend on the request
  and on the header map it finds. \<open>AssignHeader\<close> is the direct assignment
  \<^verbatim>\<open>w.Header()[k] = vs\<close>, which stores the key as it is spelled.
\<close>

datatype action =
    SetHeader string string
  | AddHeader string string
  | DelHeader string
  | AssignHeader string "string list"
  | DoWriteHeader go_int
  | DoWrite "byte list"

type_synonym Handler = "Request \<Rightarrow> header \<Rightarrow> action list"

fun onHeader :: "header \<Rightarrow> action \<Rightarrow> header" where
  "onHeader h (SetHeader k v) = Header_Set h k v"
| "onHeader h (AddHeader k v) = Header_Add h k v"
| "onHeader h (DelHeader k) = Header_Del h k"
| "onHeader h (AssignHeader k vs) = AList.update k vs h"
| "onHeader h (DoWriteHeader s) = h"
| "onHeader h (DoWrite p) = h"

fun perform :: "ResponseWriter \<Rightarrow> action \<Rightarrow> ResponseWriter" where
  "perform w (DoWriteHeader s) = ResponseWriter_WriteHeader w s"
| "perform w (DoWrite p) = ResponseWriter_Write w p"
| "perform w a = w\<lparr>wHeader := onHeader (wHeader w) a\<rparr>"

fun performWrapped :: "responseWriter \<Rightarrow> action \<Rightarrow> responseWriter" where
  "performWrapped rw (DoWriteHeader s) = WriteHeader rw s"
| "performWrapped rw (DoWrite p) = Write rw p"
| "performWrapped rw a = rw\<lparr>embedded := perform (embedded rw) a\<rparr>"

text \<open>
  \<^verbatim>\<open>next.ServeHTTP(w, r)\<close> on a plain writer, and \<^verbatim>\<open>next.ServeHTTP(rw, r)\<close> on the
  wrapper.
\<close>

definition serve :: "Handler \<Rightarrow> Request \<Rightarrow> ResponseWriter \<Rightarrow> ResponseWriter" where
  "serve h r w = foldl perform w (h r (wHeader w))"

definition serveWrapped :: "Handler \<Rightarrow> Request \<Rightarrow> responseWriter \<Rightarrow> responseWriter" where
  "serveWrapped h r rw = foldl performWrapped rw (h r (wHeader (embedded rw)))"

subsection \<open>The cache handler\<close>

record cacheData =
  Status :: go_int
  Headers :: header
  Body :: "byte list"

text \<open>
  What \<^verbatim>\<open>cache.go\<close> calls and does not define: \<^verbatim>\<open>Get\<close> and \<^verbatim>\<open>Set\<close> of the
  \<^verbatim>\<open>fileCache\<close>, \<^verbatim>\<open>json.Marshal\<close> and \<^verbatim>\<open>json.Unmarshal\<close>, and
  \<^verbatim>\<open>strings.ToLower\<close>. They are parameters of the model. \<open>'s\<close> is the state of the store; \<open>'b\<close> is the marshalled form of an
  entry, Go's \<^verbatim>\<open>[]byte\<close>, which the middleware only passes on. \<open>cacheGet\<close> returns the
  error or the bytes; \<open>cacheSet\<close> and \<open>jsonMarshal\<close> return the error if there is one.
\<close>

record ('s, 'b) externals =
  cacheGet :: "'s \<Rightarrow> string \<Rightarrow> (string + 'b) \<times> 's"
  cacheSet :: "'s \<Rightarrow> string \<Rightarrow> 'b \<Rightarrow> Duration \<Rightarrow> string option \<times> 's"
  jsonMarshal :: "cacheData \<Rightarrow> 'b \<times> string option"
  jsonUnmarshal :: "'b \<Rightarrow> string + cacheData"
  stringsToLower :: "string \<Rightarrow> string"

text \<open>
  The \<^verbatim>\<open>cache\<close> struct; its field \<^verbatim>\<open>cache *fileCache\<close> is the store state, carried in
  the \<open>world\<close> below together with the writer of the request and the log.
\<close>

record cache =
  name :: string
  cfg :: Config
  "next" :: Handler

record 's world =
  writer :: ResponseWriter
  disk :: 's
  logged :: "string list"

definition New ::
  "(string \<Rightarrow> Duration \<Rightarrow> string + 's) \<Rightarrow> Handler \<Rightarrow> Config \<Rightarrow> string \<Rightarrow> string + (cache \<times> 's)" where
  "New newFileCache nxt c nm =
     (if sint (MaxExpiry c) \<le> 1 then Inl ''maxExpiry must be greater or equal to 1''
      else if sint (Cleanup c) \<le> 1 then Inl ''cleanup must be greater or equal to 1''
      else case newFileCache (Path c) (Cleanup c * Second) of
             Inl err \<Rightarrow> Inl err
           | Inr fc \<Rightarrow> Inr (\<lparr>name = nm, cfg = c, next = nxt\<rparr>, fc))"

definition cacheable :: "Config \<Rightarrow> go_int \<Rightarrow> Duration \<times> bool" where
  "cacheable c st = (if st \<noteq> 200 then (0, False) else (MaxExpiry c * Second, True))"

definition matchesPathPrefix :: "(string \<Rightarrow> string) \<Rightarrow> Config \<Rightarrow> string \<Rightarrow> bool" where
  "matchesPathPrefix lower c path =
     (if length (CachePathPrefixes c) = 0 then True
      else list_ex (\<lambda>p. HasPrefix (lower path) (lower p)) (CachePathPrefixes c))"

definition cacheKey :: "Request \<Rightarrow> string list \<Rightarrow> string" where
  "cacheKey r cacheHeaders =
     foldl (\<lambda>builder headerName.
              let canonicalName = CanonicalHeaderKey headerName;
                  headerValue = Header_Get (Header r) canonicalName
              in if headerValue \<noteq> ''''
                 then builder @ ''|'' @ canonicalName @ '':'' @ headerValue
                 else builder)
       (Method r @ Host r @ URL_Path r) cacheHeaders"

text \<open>
  The cache hit of \<^verbatim>\<open>ServeHTTP\<close>: every stored header value is added to the writer's
  header with \<^verbatim>\<open>Add\<close>, the status header is set, then status and body are written.
\<close>

definition replayHeaders :: "header \<Rightarrow> header \<Rightarrow> header" where
  "replayHeaders stored h =
     foldl (\<lambda>h (key, vals). foldl (\<lambda>h val. Header_Add h key val) h vals) h stored"

definition serveHit :: "Config \<Rightarrow> cacheData \<Rightarrow> ResponseWriter \<Rightarrow> ResponseWriter" where
  "serveHit c d w =
     (let h1 = replayHeaders (Headers d) (wHeader w);
          h2 = (if AddStatusHeader c then Header_Set h1 cacheHeader cacheHitStatus else h1);
          w1 = ResponseWriter_WriteHeader (w\<lparr>wHeader := h2\<rparr>) (Status d)
      in ResponseWriter_Write w1 (Body d))"

text \<open>
  The header map that is cached: the loop of \<^verbatim>\<open>ServeHTTP\<close> copies every entry of
  \<^verbatim>\<open>w.Header()\<close> into a fresh map, except the keys \<^verbatim>\<open>Transfer-Encoding\<close> and
  \<^verbatim>\<open>Connection\<close>.
\<close>

definition cachedHeaders :: "header \<Rightarrow> header" where
  "cachedHeaders h =
     filter (\<lambda>(key, vals). \<not> (key = ''Transfer-Encoding'' \<or> key = ''Connection'')) h"

definition withStatusHeader :: "Config \<Rightarrow> string \<Rightarrow> ResponseWriter \<Rightarrow> ResponseWriter" where
  "withStatusHeader c cs w =
     (if AddStatusHeader c then w\<lparr>wHeader := Header_Set (wHeader w) cacheHeader cs\<rparr> else w)"

definition logError :: "string \<Rightarrow> string option \<Rightarrow> string list \<Rightarrow> string list" where
  "logError msg err lg = (case err of None \<Rightarrow> lg | Some e \<Rightarrow> lg @ [msg @ e])"

text \<open>
  \<^verbatim>\<open>ServeHTTP\<close> from the point where no entry is served from the cache: the status
  header is set to \<open>cs\<close>, the next handler runs on the wrapper, and a response with
  status 200 is stored. A failure of \<^verbatim>\<open>json.Marshal\<close> is logged and \<^verbatim>\<open>Set\<close> is called
  all the same, with what \<^verbatim>\<open>Marshal\<close> returned.
\<close>

definition serveMiss ::
  "('s, 'b) externals \<Rightarrow> cache \<Rightarrow> Request \<Rightarrow> string \<Rightarrow> string \<Rightarrow> 's world \<Rightarrow> 's world" where
  "serveMiss x m r key cs st =
     (let rw = serveWrapped (next m) r
                 \<lparr>embedded = withStatusHeader (cfg m) cs (writer st), status = 0, body = []\<rparr>;
          (expiry, ok) = cacheable (cfg m) (status rw)
      in if \<not> ok then st\<lparr>writer := embedded rw\<rparr>
         else
           let headers = cachedHeaders (wHeader (embedded rw));
               d = \<lparr>Status = status rw, Headers = headers, Body = body rw\<rparr>;
               (b, err) = jsonMarshal x d;
               lg = logError ''Error serializing cache item: '' err (logged st);
               (err', dk) = cacheSet x (disk st) key b expiry
           in \<lparr>writer = embedded rw, disk = dk,
               logged = logError ''Error setting cache item: '' err' lg\<rparr>)"

definition ServeHTTP ::
  "('s, 'b) externals \<Rightarrow> cache \<Rightarrow> Request \<Rightarrow> 's world \<Rightarrow> 's world" where
  "ServeHTTP x m r st =
     (if \<not> matchesPathPrefix (stringsToLower x) (cfg m) (URL_Path r)
      then st\<lparr>writer := serve (next m) r (writer st)\<rparr>
      else
        let key = cacheKey r (CacheHeaders (cfg m));
            (res, dk) = cacheGet x (disk st) key;
            st1 = st\<lparr>disk := dk\<rparr>
        in case res of
             Inl _ \<Rightarrow> serveMiss x m r key cacheMissStatus st1
           | Inr b \<Rightarrow>
               (case jsonUnmarshal x b of
                  Inl _ \<Rightarrow> serveMiss x m r key cacheErrorStatus st1
                | Inr d \<Rightarrow> st1\<lparr>writer := serveHit (cfg m) d (writer st1)\<rparr>))"

subsection \<open>An in-memory store for the examples\<close>

text \<open>
  The examples below run \<open>ServeHTTP\<close> on a store that keeps its entries in a list and
  never expires them, with the identity in the place of \<^verbatim>\<open>json.Marshal\<close> and
  \<^verbatim>\<open>json.Unmarshal\<close> (whose round trip gives back the status, the header map and the
  body). \<open>failSet\<close> is a \<^verbatim>\<open>Set\<close> that always fails.
\<close>

definition memGet :: "(string \<times> cacheData) list \<Rightarrow> string \<Rightarrow> (string + cacheData) \<times> (string \<times> cacheData) list" where
  "memGet d key = (case map_of d key of None \<Rightarrow> (Inl ''cache miss'', d) | Some b \<Rightarrow> (Inr b, d))"

definition memSet ::
  "(string \<times> cacheData) list \<Rightarrow> string \<Rightarrow> cacheData \<Rightarrow> Duration \<Rightarrow> string option \<times> (string \<times> cacheData) list" where
  "memSet d key b ttl = (None, AList.update key b d)"

definition failSet ::
  "(string \<times> cacheData) list \<Rightarrow> string \<Rightarrow> cacheData \<Rightarrow> Duration \<Rightarrow> string option \<times> (string \<times> cacheData) list" where
  "failSet d key b ttl = (Some ''disk full'', d)"

definition inMemory :: "((string \<times> cacheData) list, cacheData) externals" where
  "inMemory = \<lparr>cacheGet = memGet, cacheSet = memSet,
               jsonMarshal = (\<lambda>d. (d, None)), jsonUnmarshal = Inr,
               stringsToLower = ToLower\<rparr>"

definition recorder :: ResponseWriter where
  "recorder = \<lparr>wHeader = [], wCalls = []\<rparr>"

text \<open>
  The handlers, the configuration and the request of the repository's tests
  (\<^verbatim>\<open>TestCache_ServeHTTP\<close>, \<^verbatim>\<open>TestCache_TransferEncodingHeader\<close>), and one handler
  that assigns a header under a lower-case key.
\<close>

definition testConfig :: Config where
  "testConfig = CreateConfig\<lparr>Path := ''/cache'', MaxExpiry := 10, Cleanup := 20\<rparr>"

definition testRequest :: Request where
  "testRequest = \<lparr>Method = ''GET'', Host = ''localhost'', URL_Path = ''/test'',
                  URL_RawQuery = '''', Header = []\<rparr>"

definition maxAgeHandler :: Handler where
  "maxAgeHandler = (\<lambda>r h. [SetHeader ''Cache-Control'' ''max-age=20'', DoWriteHeader 200])"

definition chunkedHandler :: Handler where
  "chunkedHandler =
     (\<lambda>r h. [SetHeader ''Transfer-Encoding'' ''chunked'', SetHeader ''Content-Type'' ''text/plain'',
              DoWriteHeader 200, DoWrite (map byteOfChar ''test response'')])"

definition lowerCaseHandler :: Handler where
  "lowerCaseHandler = (\<lambda>r h. [AssignHeader ''connection'' [''close''], DoWriteHeader 200])"

definition testCache :: "Handler \<Rightarrow> cache" where
  "testCache h = \<lparr>name = ''simplecache'', cfg = testConfig, next = h\<rparr>"

definition freshWorld :: "(string \<times> cacheData) list world" where
  "freshWorld = \<lparr>writer = recorder, disk = [], logged = []\<rparr>"

text \<open>
  A store that only records the ttl of every \<open>Set\<close> it receives, and the configuration
  of the tests with a \<open>maxExpiry\<close> of 9223372037 seconds.
\<close>

definition ttlRecorder :: "(Duration list, unit) externals" where
  "ttlRecorder = \<lparr>cacheGet = (\<lambda>d k. (Inl ''cache miss'', d)),
                  cacheSet = (\<lambda>d k b t. (None, d @ [t])),
                  jsonMarshal = (\<lambda>d. ((), None)),
                  jsonUnmarshal = (\<lambda>b. Inl ''no entry''),
                  stringsToLower = ToLower\<rparr>"

definition longConfig :: Config where
  "longConfig = testConfig\<lparr>MaxExpiry := 9223372037\<rparr>"

chapter \<open>Properties\<close>

section \<open>Record codec\<close>

lemma length_PutUint64: "length (PutUint64 v) = 8"
  by (simp add: PutUint64_def)

lemma nth_PutUint64: "i < 8 \<Longrightarrow> PutUint64 v ! i = ucast (drop_bit (8 * i) v)"
  unfolding PutUint64_def by (simp del: upt_Suc)

lemma take_bit_low_byte:
  fixes w :: uint64
  shows "take_bit (8 + m) w = take_bit 8 w OR push_bit 8 (take_bit m (drop_bit 8 w))"
  by (rule bit_word_eqI) (auto simp add: bit_simps)

lemma ucast_byte_uint64: "(ucast (ucast (w :: uint64) :: byte) :: uint64) = take_bit 8 w"
  by (rule bit_word_eqI) (auto simp add: bit_simps)

lemma leValue_bytes:
  "leValue (map (\<lambda>i. ucast (drop_bit (8 * i + 8 * j) v)) [0..<k])
     = take_bit (8 * k) (drop_bit (8 * j) v)"
proof (induction k arbitrary: j)
  case 0
  show ?case by simp
next
  case (Suc k)
  have "[0..<Suc k] = 0 # map Suc [0..<k]"
    by (metis map_Suc_upt upt_conv_Cons zero_less_Suc)
  then have "leValue (map (\<lambda>i. ucast (drop_bit (8 * i + 8 * j) v)) [0..<Suc k])
      = ucast (ucast (drop_bit (8 * j) v) :: byte) OR
        push_bit 8 (leValue (map (\<lambda>i. ucast (drop_bit (8 * i + 8 * Suc j) v)) [0..<k]))"
    by (simp add: comp_def ac_simps del: upt_Suc)
  also have "\<dots> = take_bit 8 (drop_bit (8 * j) v) OR
        push_bit 8 (take_bit (8 * k) (drop_bit 8 (drop_bit (8 * j) v)))"
    by (simp only: Suc.IH ucast_byte_uint64) (simp add: add.commute)
  also have "\<dots> = take_bit (8 * Suc k) (drop_bit (8 * j) v)"
    using take_bit_low_byte [of "8 * k" "drop_bit (8 * j) v"] by simp
  finally show ?case .
qed

lemma Uint64_PutUint64: "Uint64 (PutUint64 v @ p) = v"
proof -
  have "Uint64 (PutUint64 v @ p) = leValue (PutUint64 v)"
    by (simp add: Uint64_def length_PutUint64)
  also have "\<dots> = take_bit 64 v"
    using leValue_bytes [of 0 v 8] by (simp add: PutUint64_def)
  also have "\<dots> = v"
    by (rule take_bit_word_eq_self) simp
  finally show ?thesis .
qed

lemma decode_encode: "decode (encode e p) = Inr (e, p)"
  by (simp add: decode_def encode_def Uint64_PutUint64 length_PutUint64)

lemma decode_short: "length b < 8 \<Longrightarrow> decode b = Inl CorruptRecord"
  by (simp add: decode_def)

lemma encode_example:
  "encode 1010 [104, 101, 108, 108, 111] = [242, 3, 0, 0, 0, 0, 0, 0, 104, 101, 108, 108, 111]"
  by (simp add: encode_def PutUint64_def upt_rec)

lemma decode_example:
  "decode [242, 3, 0, 0, 0, 0, 0, 0, 104, 101, 108, 108, 111] = Inr (1010, [104, 101, 108, 108, 111])"
  using decode_encode [of 1010 "[104, 101, 108, 108, 111]"] by (simp only: encode_example)

text \<open>
  C5. On-disk record format: \<open>encode\<close> produces exactly 8 bytes of little-endian unsigned
  expiry timestamp (byte \<open>i\<close> is bits \<open>8 * i\<close> to \<open>8 * i + 7\<close> of the timestamp) followed
  immediately by the raw payload bytes, with no length prefix; \<open>decode\<close> of any input of
  fewer than 8 bytes fails with \<open>CorruptRecord\<close>; and \<open>decode\<close> of
  \<open>encode expiresAt payload\<close> yields \<open>(expiresAt, payload)\<close>.
\<close>

theorem record_format:
  "length (encode expiresAt payload) = 8 + length payload
   \<and> (\<forall>i<8. encode expiresAt payload ! i = ucast (drop_bit (8 * i) expiresAt))
   \<and> drop 8 (encode expiresAt payload) = payload
   \<and> (length b < 8 \<longrightarrow> decode b = Inl CorruptRecord)
   \<and> decode (encode expiresAt payload) = Inr (expiresAt, payload)"
  by (simp add: encode_def length_PutUint64 nth_append nth_PutUint64 decode_short
      decode_encode [unfolded encode_def])

theorem record_format_witness:
  "length (encode 0x0102030405060708 [9, 10]) = 8 + length [9 :: byte, 10]
   \<and> encode 0x0102030405060708 [9, 10] = [8, 7, 6, 5, 4, 3, 2, 1, 9, 10]
   \<and> length [1 :: byte, 2, 3] < 8 \<and> decode [1, 2, 3] = Inl CorruptRecord
   \<and> decode [8, 7, 6, 5, 4, 3, 2, 1, 9, 10] = Inr (0x0102030405060708, [9, 10])"
proof -
  have e: "encode 0x0102030405060708 [9, 10] = [8, 7, 6, 5, 4, 3, 2, 1, 9, 10]"
    by (simp add: encode_def PutUint64_def upt_rec)
  show ?thesis
    using record_format [of "0x0102030405060708" "[9, 10]" "[1, 2, 3]"]
    by (simp add: e)
qed

section \<open>Key sharder\<close>

text \<open>The CRC-32 model on the standard check input and on the key of the examples.\<close>

lemma ChecksumIEEE_check: "ChecksumIEEE ''123456789'' = 0xCBF43926"
  by (simp add: ChecksumIEEE_def crcByte_def crcBit_def byteOfChar_def)

lemma ChecksumIEEE_example: "ChecksumIEEE ''/a'' = 0x69707B5C"
  by (simp add: ChecksumIEEE_def crcByte_def crcBit_def byteOfChar_def)

lemma escapeKey_example: "escapeKey ''/a'' = ''%2fa''"
  by (simp add: escapeKey_def escapeChar_def unsafeChar_def hexByte_def hexdigit_def byteOfChar_def)

lemma keyPath_example: "keyPath (emptyStore\<lparr>files := fs\<rparr>) ''/a'' = ''/cache/69/70/7b/5c/%2fa''"
  by (simp add: keyPath_def emptyStore_def crcSharder_def shardPath_def ChecksumIEEE_example
      escapeKey_example hexByte_def hexdigit_def)


section \<open>Store\<close>





text \<open>
  C3. An expired record is never returned: if the record stored at \<open>k\<close> has
  \<open>expiresAt <= now\<close> at the time of the read, \<open>Get\<close> reports not found, and it has no
  side effect: the store is as it was, and the expired file is still there.
\<close>

theorem expired_never_returned:
  assumes "map_of (files s) (keyPath s k) = Some b"
      and "decode b = Inr (expiresAt, payload)"
      and "expiresAt \<le> now"
  shows "storeGet s now k = (([], False), s)
         \<and> map_of (files (snd (storeGet s now k))) (keyPath s k) = Some b"
  using assms by (simp add: storeGet_def)

theorem expired_never_returned_witness:
  "map_of (files (emptyStore\<lparr>files := [(''/cache/69/70/7b/5c/%2fa'',
              [242, 3, 0, 0, 0, 0, 0, 0, 104, 101, 108, 108, 111])]\<rparr>))
     (keyPath (emptyStore\<lparr>files := [(''/cache/69/70/7b/5c/%2fa'',
              [242, 3, 0, 0, 0, 0, 0, 0, 104, 101, 108, 108, 111])]\<rparr>) ''/a'')
     = Some [242, 3, 0, 0, 0, 0, 0, 0, 104, 101, 108, 108, 111]
   \<and> decode [242, 3, 0, 0, 0, 0, 0, 0, 104, 101, 108, 108, 111]
       = Inr (1010, [104, 101, 108, 108, 111])
   \<and> (1010 :: uint64) \<le> 1010
   \<and> storeGet (emptyStore\<lparr>files := [(''/cache/69/70/7b/5c/%2fa'',
              [242, 3, 0, 0, 0, 0, 0, 0, 104, 101, 108, 108, 111])]\<rparr>) 1010 ''/a''
       = (([], False), emptyStore\<lparr>files := [(''/cache/69/70/7b/5c/%2fa'',
              [242, 3, 0, 0, 0, 0, 0, 0, 104, 101, 108, 108, 111])]\<rparr>)"
proof -
  let ?s = "emptyStore\<lparr>files := [(''/cache/69/70/7b/5c/%2fa'',
              [242, 3, 0, 0, 0, 0, 0, 0, 104, 101, 108, 108, 111])]\<rparr>"
  have a: "map_of (files ?s) (keyPath ?s ''/a'')
             = Some [242, 3, 0, 0, 0, 0, 0, 0, 104, 101, 108, 108, 111]"
    by (simp add: keyPath_example)
  have c: "(1010 :: uint64) \<le> 1010" by simp
  from a decode_example c expired_never_returned [OF a decode_example c] show ?thesis by blast
qed

section \<open>Vacuum run\<close>

lemma vacuumFile_step:
  "vacuumFile now (s, lg) p = (s', lg') \<Longrightarrow>
     denied s' = denied s \<and> rootPath s' = rootPath s \<and>
     map_of (files s') q =
       (case map_of (files s) q of
          None \<Rightarrow> None
        | Some b \<Rightarrow> if q = p \<and> (length b < 8 \<or> Uint64 b \<le> now) \<and> p \<notin> set (denied s) then None else Some b)"
  by (auto simp add: decode_def delete_conv' split: option.splits if_splits)

lemma vacuum_fold:
  "foldl (vacuumFile now) (s, lg) ps = (s', lg') \<Longrightarrow>
     denied s' = denied s \<and> rootPath s' = rootPath s \<and>
     map_of (files s') q =
       (case map_of (files s) q of
          None \<Rightarrow> None
        | Some b \<Rightarrow>
            if q \<in> set ps \<and> (length b < 8 \<or> Uint64 b \<le> now) \<and> q \<notin> set (denied s) then None else Some b)"
proof (induction ps arbitrary: s lg)
  case Nil
  then show ?case by (simp split: option.splits)
next
  case (Cons p ps)
  obtain s1 lg1 where st: "vacuumFile now (s, lg) p = (s1, lg1)"
    by (cases "vacuumFile now (s, lg) p")
  with Cons.prems have "foldl (vacuumFile now) (s1, lg1) ps = (s', lg')" by simp
  from Cons.IH [OF this] vacuumFile_step [OF st, of q]
  show ?case
    by (auto split: option.splits if_splits)
qed

lemma walk_iff:
  "map_of (files s) p = Some b \<Longrightarrow> p \<in> set (walk s) \<longleftrightarrow> prefix (rootPath s @ ''/'') p"
  by (auto simp add: walk_def dest: map_of_SomeD intro: rev_image_eqI)

text \<open>
  C7. Each vacuum run deletes exactly the files under the cache root whose decoded expiry
  satisfies \<open>expiresAt <= now\<close>, together with the files whose expiry prefix fails to
  decode (fewer than 8 bytes), which are deletion candidates too; a file whose delete
  fails stays. No per-file decode or delete failure aborts the walk: the equation holds
  for every path \<open>p\<close>, whatever happened at the files visited before it. Files outside the
  root and unexpired files are kept as they are.
\<close>

theorem vacuum_run:
  "map_of (files (fst (vacuumRun s now))) p =
     (case map_of (files s) p of
        None \<Rightarrow> None
      | Some b \<Rightarrow>
          if prefix (rootPath s @ ''/'') p \<and> (length b < 8 \<or> Uint64 b \<le> now)
             \<and> p \<notin> set (denied s)
          then None else Some b)"
proof -
  obtain s' lg' where r: "vacuumRun s now = (s', lg')"
    by (cases "vacuumRun s now")
  then have "foldl (vacuumFile now) (s, []) (walk s) = (s', lg')"
    by (simp add: vacuumRun_def)
  from vacuum_fold [OF this, of p] r walk_iff [of s p] show ?thesis
    by (auto split: option.splits)
qed

theorem vacuum_run_witness:
  "vacuumRun
     (emptyStore\<lparr>files := [(''/cache/00/00/00/01/a'', encode 5 [1]),
                          (''/cache/00/00/00/02/b'', [1, 2]),
                          (''/cache/00/00/00/03/c'', encode 50 [1]),
                          (''/cache/00/00/00/04/d'', encode 5 [1]),
                          (''/elsewhere/e'', encode 5 [1])],
                denied := [''/cache/00/00/00/04/d'']\<rparr>) 10
   = (emptyStore\<lparr>files := [(''/cache/00/00/00/03/c'', encode 50 [1]),
                           (''/cache/00/00/00/04/d'', encode 5 [1]),
                           (''/elsewhere/e'', encode 5 [1])],
                 denied := [''/cache/00/00/00/04/d'']\<rparr>,
      [''vacuum: corrupt record /cache/00/00/00/02/b'',
       ''vacuum: cannot remove /cache/00/00/00/04/d''])
   \<and> map_of (files (fst (vacuumRun
     (emptyStore\<lparr>files := [(''/cache/00/00/00/01/a'', encode 5 [1]),
                          (''/cache/00/00/00/02/b'', [1, 2]),
                          (''/cache/00/00/00/03/c'', encode 50 [1]),
                          (''/cache/00/00/00/04/d'', encode 5 [1]),
                          (''/elsewhere/e'', encode 5 [1])],
                denied := [''/cache/00/00/00/04/d'']\<rparr>) 10))) ''/cache/00/00/00/01/a'' = None"
proof -
  let ?s = "emptyStore\<lparr>files := [(''/cache/00/00/00/01/a'', encode 5 [1]),
                          (''/cache/00/00/00/02/b'', [1, 2]),
                          (''/cache/00/00/00/03/c'', encode 50 [1]),
                          (''/cache/00/00/00/04/d'', encode 5 [1]),
                          (''/elsewhere/e'', encode 5 [1])],
                denied := [''/cache/00/00/00/04/d'']\<rparr>"
  have e5: "decode (encode 5 [1]) = Inr (5, [1])" and e50: "decode (encode 50 [1]) = Inr (50, [1])"
    by (rule decode_encode)+
  have run: "vacuumRun ?s 10
      = (emptyStore\<lparr>files := [(''/cache/00/00/00/03/c'', encode 50 [1]),
                           (''/cache/00/00/00/04/d'', encode 5 [1]),
                           (''/elsewhere/e'', encode 5 [1])],
                 denied := [''/cache/00/00/00/04/d'']\<rparr>,
         [''vacuum: corrupt record /cache/00/00/00/02/b'',
          ''vacuum: cannot remove /cache/00/00/00/04/d''])"
    by (simp add: vacuumRun_def walk_def emptyStore_def e5 e50 decode_short)
  have "Uint64 (encode 5 [1]) \<le> 10"
    by (simp add: encode_def Uint64_PutUint64)
  with vacuum_run [of ?s 10 "''/cache/00/00/00/01/a''"]
  have "map_of (files (fst (vacuumRun ?s 10))) ''/cache/00/00/00/01/a'' = None"
    by (simp add: emptyStore_def)
  with run show ?thesis by blast
qed

section \<open>The middleware\<close>

subsection \<open>The wrapper is transparent\<close>

lemma embedded_performWrapped: "embedded (performWrapped rw a) = perform (embedded rw) a"
  by (cases a) (simp_all add: Write_def WriteHeader_def)

lemma embedded_foldl_performWrapped:
  "embedded (foldl performWrapped rw as) = foldl perform (embedded rw) as"
  by (induction as arbitrary: rw) (simp_all add: embedded_performWrapped)

lemma embedded_serveWrapped:
  "embedded (serveWrapped h r \<lparr>embedded = w, status = s, body = b\<rparr>) = serve h r w"
  by (simp add: serveWrapped_def serve_def embedded_foldl_performWrapped)

subsection \<open>What ServeHTTP leaves in the writer, the store and the log\<close>

lemma writer_serveMiss:
  "writer (serveMiss x m r key cs st) = serve (next m) r (withStatusHeader (cfg m) cs (writer st))"
  by (simp add: serveMiss_def Let_def embedded_serveWrapped split: prod.splits)

lemma writer_ServeHTTP:
  "writer (ServeHTTP x m r st) =
     (if \<not> matchesPathPrefix (stringsToLower x) (cfg m) (URL_Path r) then serve (next m) r (writer st)
      else case fst (cacheGet x (disk st) (cacheKey r (CacheHeaders (cfg m)))) of
             Inl e \<Rightarrow> serve (next m) r (withStatusHeader (cfg m) cacheMissStatus (writer st))
           | Inr b \<Rightarrow>
               (case jsonUnmarshal x b of
                  Inl e \<Rightarrow> serve (next m) r (withStatusHeader (cfg m) cacheErrorStatus (writer st))
                | Inr d \<Rightarrow> serveHit (cfg m) d (writer st)))"
  by (simp add: ServeHTTP_def Let_def writer_serveMiss case_prod_beta split: sum.splits)

lemma serveMiss_disk:
  "disk (serveMiss x m r key cs st) =
     (let rw = serveWrapped (next m) r
                 \<lparr>embedded = withStatusHeader (cfg m) cs (writer st), status = 0, body = []\<rparr>
      in if status rw = 200
         then snd (cacheSet x (disk st) key
                (fst (jsonMarshal x \<lparr>Status = status rw,
                                       Headers = cachedHeaders (wHeader (embedded rw)),
                                       Body = body rw\<rparr>))
                (MaxExpiry (cfg m) * Second))
         else disk st)"
  by (simp add: serveMiss_def Let_def cacheable_def case_prod_beta)

lemma serveMiss_stored:
  assumes "rw = serveWrapped (next m) r
                  \<lparr>embedded = withStatusHeader (cfg m) cs (writer st), status = 0, body = []\<rparr>"
      and "status rw = 200"
      and "d = \<lparr>Status = status rw, Headers = cachedHeaders (wHeader (embedded rw)), Body = body rw\<rparr>"
  shows "serveMiss x m r key cs st =
           \<lparr>writer = serve (next m) r (withStatusHeader (cfg m) cs (writer st)),
            disk = snd (cacheSet x (disk st) key (fst (jsonMarshal x d)) (MaxExpiry (cfg m) * Second)),
            logged = logError ''Error setting cache item: ''
                       (fst (cacheSet x (disk st) key (fst (jsonMarshal x d)) (MaxExpiry (cfg m) * Second)))
                       (logError ''Error serializing cache item: '' (snd (jsonMarshal x d)) (logged st))\<rparr>"
proof -
  have "embedded rw = serve (next m) r (withStatusHeader (cfg m) cs (writer st))"
    by (simp add: assms(1) embedded_serveWrapped)
  with assms(2) show ?thesis
    unfolding serveMiss_def assms(3) assms(1) [symmetric]
    by (simp add: Let_def cacheable_def case_prod_beta)
qed

lemma ServeHTTP_not_served:
  assumes "matchesPathPrefix (stringsToLower x) (cfg m) (URL_Path r)"
      and "cacheGet x (disk st) (cacheKey r (CacheHeaders (cfg m))) = (res, dk)"
      and "case res of Inl _ \<Rightarrow> cs = cacheMissStatus
                     | Inr b \<Rightarrow> (case jsonUnmarshal x b of
                                   Inl _ \<Rightarrow> cs = cacheErrorStatus | Inr _ \<Rightarrow> False)"
  shows "ServeHTTP x m r st
           = serveMiss x m r (cacheKey r (CacheHeaders (cfg m))) cs (st\<lparr>disk := dk\<rparr>)"
  using assms by (auto simp add: ServeHTTP_def split: sum.splits)

subsection \<open>Headers\<close>

lemma Header_Get_Set: "Header_Get (Header_Set h k v) k = v"
  by (simp add: Header_Get_def Header_Set_def update_conv')

text \<open>
  The header map that is cached, read as a map: the two canonical keys are left out and
  every other key is kept with its values.
\<close>

lemma map_of_cachedHeaders:
  "map_of (cachedHeaders h) k =
     (if k = ''Transfer-Encoding'' \<or> k = ''Connection'' then None else map_of h k)"
  by (induction h) (auto simp add: cachedHeaders_def)

subsection \<open>The repository's tests, on the model\<close>

text \<open>
  \<^verbatim>\<open>TestCache_ServeHTTP\<close>: the first request is a miss, the second, on a fresh recorder,
  a hit.
\<close>

lemma test_ServeHTTP:
  "Header_Get (wHeader (writer (ServeHTTP inMemory (testCache maxAgeHandler) testRequest freshWorld)))
     ''Cache-Status'' = ''miss''
   \<and> Header_Get (wHeader (writer (ServeHTTP inMemory (testCache maxAgeHandler) testRequest
        ((ServeHTTP inMemory (testCache maxAgeHandler) testRequest freshWorld)\<lparr>writer := recorder\<rparr>))))
     ''Cache-Status'' = ''hit''"
  by code_simp

text \<open>
  \<^verbatim>\<open>TestCache_TransferEncodingHeader\<close>: on the hit, \<^verbatim>\<open>Transfer-Encoding\<close> is absent and
  \<^verbatim>\<open>Content-Type\<close> is preserved.
\<close>

lemma test_TransferEncodingHeader:
  "wHeader (writer (ServeHTTP inMemory (testCache chunkedHandler) testRequest
        ((ServeHTTP inMemory (testCache chunkedHandler) testRequest freshWorld)\<lparr>writer := recorder\<rparr>)))
     = [(''Cache-Status'', [''hit'']), (''Content-Type'', [''text/plain''])]"
  by code_simp

subsection \<open>C2: a failing Get is a cache miss\<close>

text \<open>
  C2. For every request that reaches the store (its path matches the configured
  prefixes), when \<open>Get\<close> for the computed cache key fails, for whatever reason, the
  middleware does not fail the request: \<open>ServeHTTP\<close> continues exactly as on a miss, the
  response is the one the next handler produces on the writer, and when
  \<open>AddStatusHeader\<close> is set the writer handed to the next handler carries the
  \<^verbatim>\<open>Cache-Status\<close> \<open>miss\<close>, which is not \<open>hit\<close>.
\<close>

theorem get_failure_is_miss:
  assumes "matchesPathPrefix (stringsToLower x) (cfg m) (URL_Path r)"
      and "cacheGet x (disk st) (cacheKey r (CacheHeaders (cfg m))) = (Inl e, dk)"
  shows "ServeHTTP x m r st
           = serveMiss x m r (cacheKey r (CacheHeaders (cfg m))) cacheMissStatus (st\<lparr>disk := dk\<rparr>)
         \<and> writer (ServeHTTP x m r st)
           = serve (next m) r (withStatusHeader (cfg m) cacheMissStatus (writer st))
         \<and> (AddStatusHeader (cfg m) \<longrightarrow>
              Header_Get (wHeader (withStatusHeader (cfg m) cacheMissStatus (writer st))) cacheHeader
                = ''miss'')
         \<and> cacheMissStatus \<noteq> cacheHitStatus"
proof -
  let ?key = "cacheKey r (CacheHeaders (cfg m))"
  have 1: "ServeHTTP x m r st = serveMiss x m r ?key cacheMissStatus (st\<lparr>disk := dk\<rparr>)"
    using assms by (simp add: ServeHTTP_def)
  have 2: "writer (ServeHTTP x m r st)
             = serve (next m) r (withStatusHeader (cfg m) cacheMissStatus (writer st))"
    by (simp add: 1 writer_serveMiss)
  have 3: "AddStatusHeader (cfg m) \<longrightarrow>
             Header_Get (wHeader (withStatusHeader (cfg m) cacheMissStatus (writer st))) cacheHeader
               = ''miss''"
    by (simp add: withStatusHeader_def Header_Get_Set cacheMissStatus_def)
  have 4: "cacheMissStatus \<noteq> cacheHitStatus"
    by (simp add: cacheMissStatus_def cacheHitStatus_def)
  from 1 2 3 4 show ?thesis by blast
qed

theorem get_failure_is_miss_witness:
  "matchesPathPrefix (stringsToLower inMemory) (cfg (testCache chunkedHandler)) (URL_Path testRequest)
   \<and> cacheGet inMemory (disk freshWorld)
        (cacheKey testRequest (CacheHeaders (cfg (testCache chunkedHandler))))
       = (Inl ''cache miss'', [])
   \<and> writer (ServeHTTP inMemory (testCache chunkedHandler) testRequest freshWorld)
       = serve (next (testCache chunkedHandler)) testRequest
           (withStatusHeader (cfg (testCache chunkedHandler)) cacheMissStatus (writer freshWorld))
   \<and> Header_Get (wHeader (writer (ServeHTTP inMemory (testCache chunkedHandler) testRequest freshWorld)))
        ''Cache-Status'' = ''miss''
   \<and> wCalls (writer (ServeHTTP inMemory (testCache chunkedHandler) testRequest freshWorld))
       = [WriteHeaderCall 200, WriteCall (map byteOfChar ''test response'')]"
proof -
  have a: "matchesPathPrefix (stringsToLower inMemory) (cfg (testCache chunkedHandler)) (URL_Path testRequest)"
    by (simp add: matchesPathPrefix_def testCache_def testConfig_def CreateConfig_def)
  have b: "cacheGet inMemory (disk freshWorld)
             (cacheKey testRequest (CacheHeaders (cfg (testCache chunkedHandler))))
           = (Inl ''cache miss'', [])"
    by (simp add: inMemory_def memGet_def freshWorld_def)
  have c: "Header_Get (wHeader (writer (ServeHTTP inMemory (testCache chunkedHandler) testRequest freshWorld)))
             ''Cache-Status'' = ''miss''"
    by code_simp
  have d: "wCalls (writer (ServeHTTP inMemory (testCache chunkedHandler) testRequest freshWorld))
             = [WriteHeaderCall 200, WriteCall (map byteOfChar ''test response'')]"
    by code_simp
  from a b c d get_failure_is_miss [OF a b] show ?thesis by blast
qed

subsection \<open>C4: a failing Set is only logged\<close>

text \<open>
  C4. For every request whose response is eligible for caching (its path matches the
  configured prefixes, no entry is served from the cache, and the captured status is
  200), if the store's \<open>Set\<close> returns an error, the middleware only logs it: the log gains
  the line \<^verbatim>\<open>Error setting cache item\<close> with the error, and the writer, that is the
  status, headers and body delivered to the client, is the response of the next handler,
  exactly the one of the run in which \<open>Set\<close> is replaced by any other \<open>g\<close>; where \<open>g\<close>
  succeeds, the two logs differ by that one line.
\<close>

theorem set_failure_only_logged:
  assumes "matchesPathPrefix (stringsToLower x) (cfg m) (URL_Path r)"
      and "cacheGet x (disk st) (cacheKey r (CacheHeaders (cfg m))) = (res, dk)"
      and "case res of Inl _ \<Rightarrow> cs = cacheMissStatus
                     | Inr b \<Rightarrow> (case jsonUnmarshal x b of
                                   Inl _ \<Rightarrow> cs = cacheErrorStatus | Inr _ \<Rightarrow> False)"
      and "rw = serveWrapped (next m) r
                  \<lparr>embedded = withStatusHeader (cfg m) cs (writer st), status = 0, body = []\<rparr>"
      and "status rw = 200"
      and "d = \<lparr>Status = status rw, Headers = cachedHeaders (wHeader (embedded rw)), Body = body rw\<rparr>"
      and "cacheSet x dk (cacheKey r (CacheHeaders (cfg m))) (fst (jsonMarshal x d))
             (MaxExpiry (cfg m) * Second) = (Some e, dk')"
  shows "writer (ServeHTTP x m r st) = serve (next m) r (withStatusHeader (cfg m) cs (writer st))
       \<and> writer (ServeHTTP x m r st) = writer (ServeHTTP (x\<lparr>cacheSet := g\<rparr>) m r st)
       \<and> logged (ServeHTTP x m r st)
           = logError ''Error serializing cache item: '' (snd (jsonMarshal x d)) (logged st)
               @ [''Error setting cache item: '' @ e]
       \<and> (fst (g dk (cacheKey r (CacheHeaders (cfg m))) (fst (jsonMarshal x d))
                 (MaxExpiry (cfg m) * Second)) = None \<longrightarrow>
            logged (ServeHTTP x m r st)
              = logged (ServeHTTP (x\<lparr>cacheSet := g\<rparr>) m r st) @ [''Error setting cache item: '' @ e])
       \<and> disk (ServeHTTP x m r st) = dk'"
proof -
  let ?key = "cacheKey r (CacheHeaders (cfg m))"
  let ?x' = "x\<lparr>cacheSet := g\<rparr>"
  let ?st = "st\<lparr>disk := dk\<rparr>"
  have rw: "rw = serveWrapped (next m) r
                   \<lparr>embedded = withStatusHeader (cfg m) cs (writer ?st), status = 0, body = []\<rparr>"
    using assms(4) by simp
  have 1: "ServeHTTP x m r st = serveMiss x m r ?key cs ?st"
    using assms(1,2,3) by (rule ServeHTTP_not_served)
  have "case res of Inl _ \<Rightarrow> cs = cacheMissStatus
                  | Inr b \<Rightarrow> (case jsonUnmarshal ?x' b of
                                Inl _ \<Rightarrow> cs = cacheErrorStatus | Inr _ \<Rightarrow> False)"
    using assms(3) by (cases res) simp_all
  moreover have "matchesPathPrefix (stringsToLower ?x') (cfg m) (URL_Path r)"
    using assms(1) by simp
  moreover have "cacheGet ?x' (disk st) ?key = (res, dk)"
    using assms(2) by simp
  ultimately have 2: "ServeHTTP ?x' m r st = serveMiss ?x' m r ?key cs ?st"
    by (intro ServeHTTP_not_served)
  note a = serveMiss_stored [OF rw assms(5,6), of x ?key]
  note b = serveMiss_stored [OF rw assms(5,6), of ?x' ?key]
  from assms(7) show ?thesis
    by (simp add: 1 2 a b logError_def)
qed

theorem set_failure_only_logged_witness:
  "matchesPathPrefix (stringsToLower (inMemory\<lparr>cacheSet := failSet\<rparr>))
      (cfg (testCache chunkedHandler)) (URL_Path testRequest)
   \<and> cacheGet (inMemory\<lparr>cacheSet := failSet\<rparr>) (disk freshWorld)
        (cacheKey testRequest (CacheHeaders (cfg (testCache chunkedHandler))))
       = (Inl ''cache miss'', [])
   \<and> status (serveWrapped (next (testCache chunkedHandler)) testRequest
        \<lparr>embedded = withStatusHeader (cfg (testCache chunkedHandler)) cacheMissStatus (writer freshWorld),
         status = 0, body = []\<rparr>) = 200
   \<and> writer (ServeHTTP (inMemory\<lparr>cacheSet := failSet\<rparr>) (testCache chunkedHandler) testRequest freshWorld)
       = serve (next (testCache chunkedHandler)) testRequest
           (withStatusHeader (cfg (testCache chunkedHandler)) cacheMissStatus (writer freshWorld))
   \<and> writer (ServeHTTP (inMemory\<lparr>cacheSet := failSet\<rparr>) (testCache chunkedHandler) testRequest freshWorld)
       = writer (ServeHTTP (inMemory\<lparr>cacheSet := memSet\<rparr>)
                   (testCache chunkedHandler) testRequest freshWorld)
   \<and> writer (ServeHTTP (inMemory\<lparr>cacheSet := failSet\<rparr>) (testCache chunkedHandler) testRequest freshWorld)
       = \<lparr>wHeader = [(''Cache-Status'', [''miss'']), (''Transfer-Encoding'', [''chunked'']),
                     (''Content-Type'', [''text/plain''])],
          wCalls = [WriteHeaderCall 200, WriteCall (map byteOfChar ''test response'')]\<rparr>
   \<and> logged (ServeHTTP (inMemory\<lparr>cacheSet := failSet\<rparr>) (testCache chunkedHandler) testRequest freshWorld)
       = [''Error setting cache item: disk full'']
   \<and> logged (ServeHTTP (inMemory\<lparr>cacheSet := memSet\<rparr>)
               (testCache chunkedHandler) testRequest freshWorld)
       = []
   \<and> disk (ServeHTTP (inMemory\<lparr>cacheSet := failSet\<rparr>) (testCache chunkedHandler) testRequest freshWorld)
       = []"
proof -
  let ?x = "inMemory\<lparr>cacheSet := failSet\<rparr>"
  let ?m = "testCache chunkedHandler"
  let ?rw = "serveWrapped (next ?m) testRequest
        \<lparr>embedded = withStatusHeader (cfg ?m) cacheMissStatus (writer freshWorld),
         status = 0, body = []\<rparr>"
  let ?d = "\<lparr>Status = status ?rw, Headers = cachedHeaders (wHeader (embedded ?rw)), Body = body ?rw\<rparr>"
  have a: "matchesPathPrefix (stringsToLower ?x) (cfg ?m) (URL_Path testRequest)"
    by (simp add: matchesPathPrefix_def testCache_def testConfig_def CreateConfig_def)
  have b: "cacheGet ?x (disk freshWorld) (cacheKey testRequest (CacheHeaders (cfg ?m)))
             = (Inl ''cache miss'', [])"
    by (simp add: inMemory_def memGet_def freshWorld_def)
  have c: "case (Inl ''cache miss'' :: string + cacheData) of
             Inl _ \<Rightarrow> cacheMissStatus = cacheMissStatus
           | Inr b \<Rightarrow> (case jsonUnmarshal ?x b of
                         Inl _ \<Rightarrow> cacheMissStatus = cacheErrorStatus | Inr _ \<Rightarrow> False)"
    by simp
  have s: "status ?rw = 200"
    by code_simp
  have f: "cacheSet ?x [] (cacheKey testRequest (CacheHeaders (cfg ?m))) (fst (jsonMarshal ?x ?d))
             (MaxExpiry (cfg ?m) * Second) = (Some ''disk full'', [])"
    by (simp add: failSet_def)
  have g: "fst (memSet [] (cacheKey testRequest (CacheHeaders (cfg ?m))) (fst (jsonMarshal ?x ?d))
             (MaxExpiry (cfg ?m) * Second)) = None"
    by (simp add: memSet_def)
  have w: "writer (ServeHTTP ?x ?m testRequest freshWorld)
       = \<lparr>wHeader = [(''Cache-Status'', [''miss'']), (''Transfer-Encoding'', [''chunked'']),
                     (''Content-Type'', [''text/plain''])],
          wCalls = [WriteHeaderCall 200, WriteCall (map byteOfChar ''test response'')]\<rparr>"
    by code_simp
  have l: "logged (ServeHTTP (inMemory\<lparr>cacheSet := memSet\<rparr>) ?m testRequest freshWorld) = []"
    by code_simp
  note T = set_failure_only_logged [OF a b c refl s refl f, where g = memSet]
  from T have t1: "writer (ServeHTTP ?x ?m testRequest freshWorld)
                     = serve (next ?m) testRequest (withStatusHeader (cfg ?m) cacheMissStatus (writer freshWorld))"
    by (rule conjunct1)
  from T [THEN conjunct2, THEN conjunct1]
  have t2: "writer (ServeHTTP ?x ?m testRequest freshWorld)
              = writer (ServeHTTP (inMemory\<lparr>cacheSet := memSet\<rparr>) ?m testRequest freshWorld)"
    by simp
  from T [THEN conjunct2, THEN conjunct2, THEN conjunct2, THEN conjunct1] g
  have "logged (ServeHTTP ?x ?m testRequest freshWorld)
          = logged (ServeHTTP (inMemory\<lparr>cacheSet := memSet\<rparr>) ?m testRequest freshWorld)
              @ [''Error setting cache item: '' @ ''disk full'']"
    by simp
  with l have t3: "logged (ServeHTTP ?x ?m testRequest freshWorld)
                     = [''Error setting cache item: disk full'']"
    by simp
  from T [THEN conjunct2, THEN conjunct2, THEN conjunct2, THEN conjunct2]
  have t4: "disk (ServeHTTP ?x ?m testRequest freshWorld) = []" .
  from a b s t1 t2 w t3 l t4 show ?thesis by blast
qed

subsection \<open>C10: what the cache key depends on\<close>

text \<open>
  C10. The cache key depends only on the request method, host, URL path and the values
  of the configured \<open>cacheHeaders\<close> (looked up under their canonical names, and left out
  when empty): two requests that agree on these have the same key, whatever their query
  strings and their other headers are.
\<close>

theorem cacheKey_depends_only_on:
  assumes "Method r1 = Method r2" and "Host r1 = Host r2" and "URL_Path r1 = URL_Path r2"
      and "\<forall>n \<in> set hs. Header_Get (Header r1) (CanonicalHeaderKey n)
                         = Header_Get (Header r2) (CanonicalHeaderKey n)"
  shows "cacheKey r1 hs = cacheKey r2 hs"
  unfolding cacheKey_def using assms
  by (intro foldl_cong) (simp_all add: Let_def)

theorem cacheKey_depends_only_on_witness:
  "Method (testRequest\<lparr>URL_RawQuery := ''page=1'',
              Header := [(''Accept-Language'', [''en-US'']), (''User-Agent'', [''curl''])]\<rparr>)
     = Method (testRequest\<lparr>URL_RawQuery := ''page=2'',
              Header := [(''Cookie'', [''id=7'']), (''Accept-Language'', [''en-US'', ''fr''])]\<rparr>)
   \<and> Header_Get (Header (testRequest\<lparr>URL_RawQuery := ''page=1'',
              Header := [(''Accept-Language'', [''en-US'']), (''User-Agent'', [''curl''])]\<rparr>))
         (CanonicalHeaderKey ''accept-language'')
       = Header_Get (Header (testRequest\<lparr>URL_RawQuery := ''page=2'',
              Header := [(''Cookie'', [''id=7'']), (''Accept-Language'', [''en-US'', ''fr''])]\<rparr>))
         (CanonicalHeaderKey ''accept-language'')
   \<and> Header_Get (Header (testRequest\<lparr>URL_RawQuery := ''page=1'',
              Header := [(''Accept-Language'', [''en-US'']), (''User-Agent'', [''curl''])]\<rparr>))
         (CanonicalHeaderKey ''X-Custom-Header'')
       = Header_Get (Header (testRequest\<lparr>URL_RawQuery := ''page=2'',
              Header := [(''Cookie'', [''id=7'']), (''Accept-Language'', [''en-US'', ''fr''])]\<rparr>))
         (CanonicalHeaderKey ''X-Custom-Header'')
   \<and> cacheKey (testRequest\<lparr>URL_RawQuery := ''page=1'',
              Header := [(''Accept-Language'', [''en-US'']), (''User-Agent'', [''curl''])]\<rparr>)
         [''accept-language'', ''X-Custom-Header'']
       = cacheKey (testRequest\<lparr>URL_RawQuery := ''page=2'',
              Header := [(''Cookie'', [''id=7'']), (''Accept-Language'', [''en-US'', ''fr''])]\<rparr>)
         [''accept-language'', ''X-Custom-Header'']
   \<and> cacheKey (testRequest\<lparr>URL_RawQuery := ''page=1'',
              Header := [(''Accept-Language'', [''en-US'']), (''User-Agent'', [''curl''])]\<rparr>)
         [''accept-language'', ''X-Custom-Header'']
       = ''GETlocalhost/test|Accept-Language:en-US''"
proof -
  let ?r1 = "testRequest\<lparr>URL_RawQuery := ''page=1'',
              Header := [(''Accept-Language'', [''en-US'']), (''User-Agent'', [''curl''])]\<rparr>"
  let ?r2 = "testRequest\<lparr>URL_RawQuery := ''page=2'',
              Header := [(''Cookie'', [''id=7'']), (''Accept-Language'', [''en-US'', ''fr''])]\<rparr>"
  have a: "Method ?r1 = Method ?r2" "Host ?r1 = Host ?r2" "URL_Path ?r1 = URL_Path ?r2"
    by simp_all
  have b1: "Header_Get (Header ?r1) (CanonicalHeaderKey ''accept-language'')
              = Header_Get (Header ?r2) (CanonicalHeaderKey ''accept-language'')"
    by code_simp
  have b2: "Header_Get (Header ?r1) (CanonicalHeaderKey ''X-Custom-Header'')
              = Header_Get (Header ?r2) (CanonicalHeaderKey ''X-Custom-Header'')"
    by code_simp
  from b1 b2 have b: "\<forall>n \<in> set [''accept-language'', ''X-Custom-Header''].
             Header_Get (Header ?r1) (CanonicalHeaderKey n)
               = Header_Get (Header ?r2) (CanonicalHeaderKey n)"
    by simp
  have c: "cacheKey ?r1 [''accept-language'', ''X-Custom-Header'']
             = ''GETlocalhost/test|Accept-Language:en-US''"
    by code_simp
  from a b1 b2 c cacheKey_depends_only_on [OF a b] show ?thesis by blast
qed

subsection \<open>C8: what is cacheable, and for how long\<close>

lemma cacheable_Force: "cacheable (c\<lparr>Force := f\<rparr>) s = cacheable c s"
  by (simp add: cacheable_def)

lemma withStatusHeader_Force: "withStatusHeader (c\<lparr>Force := f\<rparr>) cs w = withStatusHeader c cs w"
  by (simp add: withStatusHeader_def)

lemma serveMiss_Force:
  "serveMiss x (m\<lparr>cfg := (cfg m)\<lparr>Force := f\<rparr>\<rparr>) r key cs st = serveMiss x m r key cs st"
  by (simp add: serveMiss_def cacheable_Force withStatusHeader_Force)

lemma serveHit_Force: "serveHit (c\<lparr>Force := f\<rparr>) d w = serveHit c d w"
  by (simp add: serveHit_def)

lemma ServeHTTP_Force:
  "ServeHTTP x (m\<lparr>cfg := (cfg m)\<lparr>Force := f\<rparr>\<rparr>) r st = ServeHTTP x m r st"
  unfolding ServeHTTP_def
  by (simp add: serveMiss_Force serveHit_Force matchesPathPrefix_def Let_def case_prod_beta
      split: sum.splits)

lemma sint_seconds:
  fixes n :: go_int
  assumes "- 9223372036 \<le> sint n" and "sint n \<le> 9223372036"
  shows "sint (n * Second) = sint n * 1000000000"
proof -
  have s: "sint Second = 1000000000" by (simp add: Second_def)
  have "sint (n * Second) = signed_take_bit 63 (sint n * 1000000000)"
    by (simp add: sint_word_ariths s)
  also have "\<dots> = sint n * 1000000000"
    using assms by (intro signed_take_bit_int_eq_self) simp_all
  finally show ?thesis .
qed

text \<open>
  C8, as the code has it. \<open>cacheable\<close> returns true exactly when the status is 200, and
  then the ttl is \<^verbatim>\<open>time.Duration(MaxExpiry) * time.Second\<close>, computed in 64-bit
  nanoseconds: it is exactly \<open>MaxExpiry\<close> seconds whenever that many seconds fit a
  \<^verbatim>\<open>time.Duration\<close>, that is up to 9223372036. The \<open>Force\<close> field changes neither
  \<open>cacheable\<close> nor \<open>ServeHTTP\<close>; and on the path that stores a response, whether \<open>Set\<close> is
  called depends on the captured status alone, and the ttl it is called with is this
  product, so no response header has a part in either.
\<close>

theorem cacheable_status_and_ttl:
  "snd (cacheable c s) = (s = 200)
   \<and> fst (cacheable c 200) = MaxExpiry c * Second
   \<and> (- 9223372036 \<le> sint (MaxExpiry c) \<and> sint (MaxExpiry c) \<le> 9223372036 \<longrightarrow>
        sint (fst (cacheable c 200)) = sint (MaxExpiry c) * 1000000000)
   \<and> cacheable (c\<lparr>Force := f\<rparr>) s = cacheable c s
   \<and> ServeHTTP x (m\<lparr>cfg := (cfg m)\<lparr>Force := f\<rparr>\<rparr>) r st = ServeHTTP x m r st
   \<and> disk (serveMiss x m r key cs st) =
       (let rw = serveWrapped (next m) r
                   \<lparr>embedded = withStatusHeader (cfg m) cs (writer st), status = 0, body = []\<rparr>
        in if status rw = 200
           then snd (cacheSet x (disk st) key
                  (fst (jsonMarshal x \<lparr>Status = status rw,
                                         Headers = cachedHeaders (wHeader (embedded rw)),
                                         Body = body rw\<rparr>))
                  (MaxExpiry (cfg m) * Second))
           else disk st)"
  by (simp add: cacheable_def sint_seconds ServeHTTP_Force serveMiss_disk)

theorem cacheable_status_and_ttl_witness:
  "- 9223372036 \<le> sint (MaxExpiry testConfig) \<and> sint (MaxExpiry testConfig) \<le> 9223372036
   \<and> snd (cacheable testConfig 200) \<and> \<not> snd (cacheable testConfig 404)
   \<and> sint (fst (cacheable testConfig 200)) = 10 * 1000000000
   \<and> cacheable (testConfig\<lparr>Force := True\<rparr>) 200 = cacheable testConfig 200
   \<and> map sint (disk (ServeHTTP ttlRecorder (testCache maxAgeHandler) testRequest
                       \<lparr>writer = recorder, disk = [], logged = []\<rparr>)) = [10000000000]"
proof -
  have m: "MaxExpiry testConfig = 10"
    by (simp add: testConfig_def CreateConfig_def)
  have a: "- 9223372036 \<le> sint (MaxExpiry testConfig) \<and> sint (MaxExpiry testConfig) \<le> 9223372036"
    by (simp add: m)
  have d: "map sint (disk (ServeHTTP ttlRecorder (testCache maxAgeHandler) testRequest
                       \<lparr>writer = recorder, disk = [], logged = []\<rparr>)) = [10000000000]"
    by code_simp
  note T = cacheable_status_and_ttl [where c = testConfig and f = True and x = ttlRecorder
      and m = "testCache maxAgeHandler" and r = testRequest
      and st = "\<lparr>writer = recorder, disk = [], logged = []\<rparr>" and key = "[]" and cs = "[]"]
  from T [where s = 200] have t1: "snd (cacheable testConfig 200)"
    by simp
  from T [where s = 404] have t2: "\<not> snd (cacheable testConfig 404)"
    by simp
  from T [where s = 200] a
  have "sint (fst (cacheable testConfig 200)) = sint (MaxExpiry testConfig) * 1000000000"
    by blast
  then have t3: "sint (fst (cacheable testConfig 200)) = 10 * 1000000000"
    by (simp only: m) simp
  from T [where s = 200] have t4: "cacheable (testConfig\<lparr>Force := True\<rparr>) 200 = cacheable testConfig 200"
    by simp
  from a d t1 t2 t3 t4 show ?thesis by blast
qed

text \<open>
  The claim as it is written, that the ttl passed to \<open>Set\<close> is always exactly
  \<open>MaxExpiry\<close> seconds, fails for a \<open>maxExpiry\<close> of 9223372037: \<^verbatim>\<open>New\<close> accepts the
  configuration, and the product wraps around to a negative duration.
\<close>

theorem ttl_wraps_counterexample:
  "New (\<lambda>p d. Inr ()) maxAgeHandler longConfig ''simplecache''
     = Inr (\<lparr>name = ''simplecache'', cfg = longConfig, next = maxAgeHandler\<rparr>, ())
   \<and> sint (MaxExpiry longConfig) = 9223372037
   \<and> snd (cacheable longConfig 200)
   \<and> sint (fst (cacheable longConfig 200)) = - 9223372036709551616
   \<and> sint (fst (cacheable longConfig 200)) \<noteq> sint (MaxExpiry longConfig) * 1000000000
   \<and> map sint (disk (ServeHTTP ttlRecorder \<lparr>name = ''simplecache'', cfg = longConfig, next = maxAgeHandler\<rparr>
                       testRequest \<lparr>writer = recorder, disk = [], logged = []\<rparr>))
       = [- 9223372036709551616]"
proof -
  have a: "New (\<lambda>p d. Inr ()) maxAgeHandler longConfig ''simplecache''
             = Inr (\<lparr>name = ''simplecache'', cfg = longConfig, next = maxAgeHandler\<rparr>, ())"
    by (simp add: New_def longConfig_def testConfig_def CreateConfig_def)
  have b: "sint (MaxExpiry longConfig) = 9223372037"
    by (simp add: longConfig_def)
  have c: "cacheable longConfig 200 = (MaxExpiry longConfig * Second, True)"
    by (simp add: cacheable_def)
  have d: "sint (MaxExpiry longConfig * Second) = - 9223372036709551616"
    by (simp add: longConfig_def Second_def)
  have e: "map sint (disk (ServeHTTP ttlRecorder \<lparr>name = ''simplecache'', cfg = longConfig, next = maxAgeHandler\<rparr>
                       testRequest \<lparr>writer = recorder, disk = [], logged = []\<rparr>))
             = [- 9223372036709551616]"
    by code_simp
  from a b c d e show ?thesis by simp
qed

subsection \<open>C9: hop-by-hop headers\<close>

text \<open>
  C9. Every cached entry's stored header map excludes the keys \<^verbatim>\<open>Transfer-Encoding\<close>
  and \<^verbatim>\<open>Connection\<close> while containing every other header of the response being cached,
  so that a later cache hit never replays those two hop-by-hop headers. The code does not
  keep to this where a response header is stored under another spelling of one of the two
  names. The loop that filters the hop-by-hop headers compares the keys of the map, as
  they are spelled, with the two canonical names, while the hit replays every stored key
  with \<^verbatim>\<open>Add\<close>, which canonicalizes it. With a next handler that assigns
  \<^verbatim>\<open>w.Header()["connection"]\<close>, the first request stores the key \<^verbatim>\<open>connection\<close>, no
  entry of the stored map is under \<^verbatim>\<open>Connection\<close>, and the second request, a hit on a
  fresh writer, carries \<^verbatim>\<open>Connection: close\<close>.
\<close>

theorem connection_replayed_on_hit:
  "disk (ServeHTTP inMemory (testCache lowerCaseHandler) testRequest freshWorld)
     = [(''GETlocalhost/test'',
         \<lparr>Status = 200,
          Headers = [(''Cache-Status'', [''miss'']), (''connection'', [''close''])],
          Body = []\<rparr>)]
   \<and> map_of [(''Cache-Status'', [''miss'']), (''connection'', [''close''])] ''Connection'' = None
   \<and> Header_Get (wHeader (writer (ServeHTTP inMemory (testCache lowerCaseHandler) testRequest
        ((ServeHTTP inMemory (testCache lowerCaseHandler) testRequest freshWorld)\<lparr>writer := recorder\<rparr>))))
        ''Cache-Status'' = ''hit''
   \<and> map_of (wHeader (writer (ServeHTTP inMemory (testCache lowerCaseHandler) testRequest
        ((ServeHTTP inMemory (testCache lowerCaseHandler) testRequest freshWorld)\<lparr>writer := recorder\<rparr>))))
        ''Connection'' = Some [''close'']
   \<and> map_of (wHeader recorder) ''Connection'' = None"
  by code_simp

end
